theory Spec2Isabelle
  imports Complex_Main "HOL-Library.Multiset" "HOL-Library.Product_Lexorder"
begin

section \<open>JavaScript values\<close>

text \<open>
  The values that flow through the client: the filter object built by \<open>App.loadData\<close>,
  the JSON body of a server response, the React state. Numbers are rationals plus
  \<open>NaN\<close>; an object is the list of its own properties, the first entry of a name being
  the property.
\<close>

datatype jsval =
    JUndefined
  | JNull
  | JBool bool
  | JNum rat
  | JNaN
  | JStr string
  | JArr "jsval list"
  | JObj "(string \<times> jsval) list"

type_synonym jsobj = "(string \<times> jsval) list"

text \<open>JavaScript's \<open>ToBoolean\<close>: what \<open>if (v)\<close>, \<open>!v\<close> and \<open>v || w\<close> test.\<close>

fun truthy :: "jsval \<Rightarrow> bool" where
  "truthy JUndefined = False"
| "truthy JNull = False"
| "truthy (JBool b) = b"
| "truthy (JNum n) = (n \<noteq> 0)"
| "truthy JNaN = False"
| "truthy (JStr s) = (s \<noteq> [])"
| "truthy (JArr xs) = True"
| "truthy (JObj ps) = True"

text \<open>\<open>a || b\<close>\<close>

definition js_or :: "jsval \<Rightarrow> jsval \<Rightarrow> jsval" where
  "js_or a b = (if truthy a then a else b)"

text \<open>\<open>obj.name\<close> on a plain object: a missing property reads as \<open>undefined\<close>.\<close>

definition get_prop :: "jsobj \<Rightarrow> string \<Rightarrow> jsval" where
  "get_prop obj name = (case map_of obj name of None \<Rightarrow> JUndefined | Some v \<Rightarrow> v)"

section \<open>services/api.js: getCustomers\<close>

text \<open>
  A \<open>URLSearchParams\<close> object is the list of the pairs appended to it, in order; the
  value of a pair is the JavaScript value handed to \<open>append\<close> (which the platform then
  turns into a string). \<open>params.toString()\<close> serialises exactly these pairs.
\<close>

type_synonym params = "(string \<times> jsval) list"

text \<open>\<open>if (filters.name) params.append('name', filters.name);\<close>\<close>

definition append_if :: "jsobj \<Rightarrow> string \<Rightarrow> params \<Rightarrow> params" where
  "append_if filters name ps =
     (if truthy (get_prop filters name) then ps @ [(name, get_prop filters name)] else ps)"

text \<open>
  Lines 5 to 16 of \<open>getCustomers\<close>: the ten conditional appends, in source order.
  The argument is the \<open>filters\<close> object; a call without argument passes \<open>{}\<close>, the
  empty list.
\<close>

definition getCustomers_params :: "jsobj \<Rightarrow> params" where
  "getCustomers_params filters =
     (let ps = [];
          ps = append_if filters ''search'' ps;
          ps = append_if filters ''min_orders'' ps;
          ps = append_if filters ''max_orders'' ps;
          ps = append_if filters ''min_spent'' ps;
          ps = append_if filters ''max_spent'' ps;
          ps = append_if filters ''days_since_order'' ps;
          ps = append_if filters ''purchased_gift_card'' ps;
          ps = append_if filters ''sort_by'' ps;
          ps = append_if filters ''sort_order'' ps;
          ps = append_if filters ''refresh'' ps
      in ps)"

text \<open>
  Lines 21 to 37: what \<open>getCustomers\<close> makes of the parsed JSON body \<open>data\<close>.
  Reading a property of \<open>null\<close> or \<open>undefined\<close> throws a \<open>TypeError\<close>; a primitive
  or an array has none of the properties read here; \<open>!data.success\<close> throws an
  \<open>Error\<close> whose message is \<open>data.error || 'Failed to fetch customers'\<close> as a string:
  \<open>new Error\<close> converts its argument with the platform's \<open>ToString\<close>, which leaves
  a string as it is and is the parameter \<open>to_string\<close> on every other value.
\<close>

datatype js_error = TypeError | Error string

definition error_message :: "(jsval \<Rightarrow> string) \<Rightarrow> jsval \<Rightarrow> string" where
  "error_message to_string v = (case v of JStr s \<Rightarrow> s | _ \<Rightarrow> to_string v)"

fun own_props :: "jsval \<Rightarrow> jsobj option" where
  "own_props JUndefined = None"
| "own_props JNull = None"
| "own_props (JObj ps) = Some ps"
| "own_props v = Some []"

definition getCustomers_result :: "(jsval \<Rightarrow> string) \<Rightarrow> jsval \<Rightarrow> js_error + jsobj" where
  "getCustomers_result to_string body =
     (case own_props body of
        None \<Rightarrow> Inl TypeError
      | Some data \<Rightarrow>
          if \<not> truthy (get_prop data ''success'')
          then Inl (Error (error_message to_string
                 (js_or (get_prop data ''error'') (JStr ''Failed to fetch customers''))))
          else Inr
            [(''customers'', get_prop data ''customers''),
             (''cache_info'', JObj
               [(''from_cache'', get_prop data ''from_cache''),
                (''cache_age'', get_prop data ''cache_age''),
                (''cache_ttl'', get_prop data ''cache_ttl''),
                (''total_customers'', get_prop data ''total_customers'')])])"

text \<open>The names of the properties of a value, in order (\<open>Object.keys\<close>).\<close>

fun keys_of :: "jsval \<Rightarrow> string list" where
  "keys_of (JObj ps) = map fst ps"
| "keys_of v = []"

section \<open>App.js: the state of the App component\<close>

datatype wizard_step = Select | Template | Preview

record app_state =
  customers :: jsval
  filteredCustomers :: "jsval list"
  selectedCustomers :: "jsval list"
  templates :: jsval
  selectedTemplate :: jsval
  loading :: bool
  error :: "string option"
  step :: wizard_step
  filters :: jsobj
  sortBy :: jsval
  sortOrder :: jsval
  successMessage :: string
  cacheInfo :: jsval

text \<open>The initial values of the \<open>useState\<close> calls, lines 11 to 33.\<close>

definition initial_filters :: jsobj where
  "initial_filters =
     [(''orderCount'', JStr ''''),
      (''maxOrders'', JStr ''''),
      (''lastOrderDays'', JStr ''''),
      (''minSpent'', JStr ''''),
      (''maxSpent'', JStr ''''),
      (''search'', JStr ''''),
      (''winback'', JBool False),
      (''winbackDays'', JNum 60),
      (''purchasedGiftCard'', JBool False)]"

definition initial_state :: app_state where
  "initial_state =
     \<lparr> customers = JArr [],
       filteredCustomers = [],
       selectedCustomers = [],
       templates = JArr [],
       selectedTemplate = JNull,
       loading = True,
       error = None,
       step = Select,
       filters = initial_filters,
       sortBy = JStr ''last_order_date'',
       sortOrder = JStr ''desc'',
       successMessage = [],
       cacheInfo = JNull \<rparr>"

text \<open>
  Lines 52 to 63 of \<open>loadData\<close>: the object literal \<open>apiFilters\<close>; lines 66 and 67:
  the two assignments that add \<open>winback\<close> and \<open>winback_days\<close>. An assignment to a
  name the literal does not have adds the property at the end.
\<close>

definition loadData_literal :: "app_state \<Rightarrow> bool \<Rightarrow> jsobj" where
  "loadData_literal s forceRefresh =
     [(''refresh'', JStr (if forceRefresh then ''true'' else ''false'')),
      (''search'', js_or (get_prop (filters s) ''search'') JUndefined),
      (''min_orders'', js_or (get_prop (filters s) ''orderCount'') JUndefined),
      (''max_orders'', js_or (get_prop (filters s) ''maxOrders'') JUndefined),
      (''min_spent'', js_or (get_prop (filters s) ''minSpent'') JUndefined),
      (''max_spent'', js_or (get_prop (filters s) ''maxSpent'') JUndefined),
      (''days_since_order'', js_or (get_prop (filters s) ''lastOrderDays'') JUndefined),
      (''purchased_gift_card'', js_or (get_prop (filters s) ''purchasedGiftCard'') JUndefined),
      (''sort_by'', sortBy s),
      (''sort_order'', sortOrder s)]"

definition loadData_apiFilters :: "app_state \<Rightarrow> bool \<Rightarrow> jsobj" where
  "loadData_apiFilters s forceRefresh =
     (let apiFilters = loadData_literal s forceRefresh;
          apiFilters = (if truthy (get_prop (filters s) ''winback'')
                        then apiFilters @ [(''winback'', JStr ''true'')] else apiFilters);
          apiFilters = (if truthy (get_prop (filters s) ''winbackDays'')
                        then apiFilters @ [(''winback_days'', get_prop (filters s) ''winbackDays'')]
                        else apiFilters)
      in apiFilters)"

text \<open>
  What can happen to the component, one event per group of state-setter calls that run
  together. The asynchronous functions \<open>loadData\<close> and \<open>handleCreateDrafts\<close> are cut
  at their \<open>await\<close>s: what arrives from the server is the event's argument, and the
  events may interleave in any order.
\<close>

datatype event =
    LoadData_begin
  | LoadData_customers jsobj
  | LoadData_templates jsval
  | LoadData_ok
  | LoadData_failed string
  | LoadData_finally
  | CustomerSelect jsval
  | SelectAll
  | NextStep
  | BackStep
  | CreateDrafts_begin
  | CreateDrafts_ok string
  | CreateDrafts_timeout
  | CreateDrafts_failed string
  | CreateDrafts_finally
  | FilterChange jsobj
  | SortByChange jsval
  | SortOrderChange jsval
  | SelectTemplate jsval
  | DismissError

text \<open>
  \<open>c.id\<close> in \<open>filteredCustomers.map(c => c.id)\<close>: reading a property of \<open>null\<close> or
  \<open>undefined\<close> throws, and the handler then sets nothing.
\<close>

definition customer_id :: "jsval \<Rightarrow> jsval option" where
  "customer_id c = map_option (\<lambda>ps. get_prop ps ''id'') (own_props c)"

text \<open>
  Lines 94 to 102. \<open>prev.includes(customerId)\<close> compares with SameValueZero, under
  which \<open>NaN\<close> equals itself; \<open>id !== customerId\<close> is strict inequality, under which
  \<open>NaN\<close> differs from everything, itself included. Customer ids are primitive values
  (numbers or strings); the identity of objects is not modelled.
\<close>

definition strict_neq :: "jsval \<Rightarrow> jsval \<Rightarrow> bool" where
  "strict_neq a b = (a = JNaN \<or> b = JNaN \<or> a \<noteq> b)"

definition handleCustomerSelect :: "jsval \<Rightarrow> app_state \<Rightarrow> app_state" where
  "handleCustomerSelect customerId s =
     s\<lparr>selectedCustomers :=
         (if customerId \<in> set (selectedCustomers s)
          then filter (\<lambda>i. strict_neq i customerId) (selectedCustomers s)
          else selectedCustomers s @ [customerId])\<rparr>"

text \<open>Lines 104 to 110.\<close>

definition handleSelectAll :: "app_state \<Rightarrow> app_state" where
  "handleSelectAll s =
     (if length (selectedCustomers s) = length (filteredCustomers s)
      then s\<lparr>selectedCustomers := []\<rparr>
      else (case those (map customer_id (filteredCustomers s)) of
              None \<Rightarrow> s
            | Some ids \<Rightarrow> s\<lparr>selectedCustomers := ids\<rparr>))"

text \<open>Lines 112 to 126.\<close>

definition handleNextStep :: "app_state \<Rightarrow> app_state" where
  "handleNextStep s =
     (if step s = Select \<and> length (selectedCustomers s) > 0 then s\<lparr>step := Template\<rparr>
      else if step s = Template \<and> truthy (selectedTemplate s) then s\<lparr>step := Preview\<rparr>
      else s)"

definition handleBackStep :: "app_state \<Rightarrow> app_state" where
  "handleBackStep s =
     (if step s = Template then s\<lparr>step := Select\<rparr>
      else if step s = Preview then s\<lparr>step := Template\<rparr>
      else s)"

text \<open>
  One event. \<open>LoadData_customers r\<close> is lines 69 to 75, \<open>r\<close> being the object that
  \<open>api.getCustomers\<close> returned; \<open>CreateDrafts_ok n\<close> is line 142, \<open>n\<close> being
  \<open>result.created\<close> as text; \<open>CreateDrafts_timeout\<close> is the timer of lines 144 to 149.
\<close>

fun handle :: "event \<Rightarrow> app_state \<Rightarrow> app_state" where
  "handle LoadData_begin s = s\<lparr>loading := True\<rparr>"
| "handle (LoadData_customers r) s =
     (let s = (if truthy (get_prop r ''cache_info'')
               then s\<lparr>cacheInfo := get_prop r ''cache_info''\<rparr> else s)
      in s\<lparr>customers := js_or (get_prop r ''customers'') (JObj r)\<rparr>)"
| "handle (LoadData_templates t) s = s\<lparr>templates := t\<rparr>"
| "handle LoadData_ok s = s\<lparr>error := None\<rparr>"
| "handle (LoadData_failed msg) s = s\<lparr>error := Some (''Failed to load data: '' @ msg)\<rparr>"
| "handle LoadData_finally s = s\<lparr>loading := False\<rparr>"
| "handle (CustomerSelect customerId) s = handleCustomerSelect customerId s"
| "handle SelectAll s = handleSelectAll s"
| "handle NextStep s = handleNextStep s"
| "handle BackStep s = handleBackStep s"
| "handle CreateDrafts_begin s = s\<lparr>loading := True\<rparr>"
| "handle (CreateDrafts_ok n) s =
     s\<lparr>successMessage := ''Successfully created '' @ n @ '' draft emails in Gmail!''\<rparr>"
| "handle CreateDrafts_timeout s =
     s\<lparr>selectedCustomers := [], selectedTemplate := JNull, step := Select,
       successMessage := []\<rparr>"
| "handle (CreateDrafts_failed msg) s =
     s\<lparr>error := Some (''Failed to create drafts: '' @ msg)\<rparr>"
| "handle CreateDrafts_finally s = s\<lparr>loading := False\<rparr>"
| "handle (FilterChange f) s = s\<lparr>filters := f\<rparr>"
| "handle (SortByChange v) s = s\<lparr>sortBy := v\<rparr>"
| "handle (SortOrderChange v) s = s\<lparr>sortOrder := v\<rparr>"
| "handle (SelectTemplate t) s = s\<lparr>selectedTemplate := t\<rparr>"
| "handle DismissError s = s\<lparr>error := None\<rparr>"

text \<open>The state after a sequence of events, from the initial state.\<close>

definition run :: "event list \<Rightarrow> app_state" where
  "run es = foldl (\<lambda>s e. handle e s) initial_state es"

text \<open>
  What is on screen. \<open>CustomerList\<close> (lines 196 to 261 of CustomerList.js) shows the
  no-results notice when its \<open>customers\<close> prop is empty and one table row per customer
  otherwise. \<open>App\<close> returns the loading screen early (line 158); on the select step it
  hands \<open>filteredCustomers\<close> to \<open>CustomerList\<close> (line 227); on the template step
  \<open>TemplateSelector\<close> calls \<open>templates.map\<close>, and on the preview step \<open>App\<close> calls
  \<open>templates.find\<close> and \<open>customers.filter\<close> (lines 249 and 250), which only an array
  has: on any other value rendering throws.
\<close>

datatype customer_list_view = NoResults | CustomersTable "jsval list"

definition CustomerList_view :: "jsval list \<Rightarrow> customer_list_view" where
  "CustomerList_view cs = (if length cs = 0 then NoResults else CustomersTable cs)"

text \<open>\<open>v.length\<close>: \<open>None\<close> where reading the property throws (\<open>null\<close>, \<open>undefined\<close>).\<close>

fun js_length :: "jsval \<Rightarrow> jsval option" where
  "js_length JUndefined = None"
| "js_length JNull = None"
| "js_length (JArr xs) = Some (JNum (of_nat (length xs)))"
| "js_length (JStr cs) = Some (JNum (of_nat (length cs)))"
| "js_length (JObj ps) = Some (get_prop ps ''length'')"
| "js_length v = Some JUndefined"

fun is_array :: "jsval \<Rightarrow> bool" where
  "is_array (JArr xs) = True"
| "is_array v = False"

datatype app_view =
    RenderError
  | LoadingScreen
  | SelectScreen customer_list_view
  | TemplateScreen
  | PreviewScreen

definition App_view :: "app_state \<Rightarrow> app_view" where
  "App_view s =
     (if loading s \<and> js_length (customers s) = None then RenderError
      else if loading s \<and> js_length (customers s) = Some (JNum 0) then LoadingScreen
      else (case step s of
              Select \<Rightarrow> SelectScreen (CustomerList_view (filteredCustomers s))
            | Template \<Rightarrow> if is_array (templates s) then TemplateScreen else RenderError
            | Preview \<Rightarrow>
                if is_array (templates s) \<and> is_array (customers s) then PreviewScreen
                else RenderError))"

section \<open>components/CustomerList.js: getDaysSinceLastOrder\<close>










section \<open>The aggregation and filtering engine\<close>

text \<open>
  The server side (\<open>backend/app.py\<close> in the project's layout) computes the customer
  records and filters them; the client above only sends the criteria and shows the answer.
  The definitions of this section follow the specification of that engine.
\<close>

text \<open>
  Modelled from the spec: the data model of the engine, which is server code
  (\<open>backend/app.py\<close>). A raw order belongs to one customer and has an identifier, a
  timestamp (seconds), a monetary total (exact decimal) and line items, each with a
  product-category tag.
\<close>

datatype category = GiftCard | OtherCategory string

record raw_order =
  order_id :: nat
  order_customer :: nat
  order_timestamp :: int
  order_total :: rat
  line_items :: "category list"

text \<open>
  Modelled from the spec: the identity part of a customer record (\<open>backend/app.py\<close>):
  customer id, first name, last name, email.
\<close>

record customer_identity =
  cid :: nat
  first_name :: string
  last_name :: string
  email :: string

text \<open>
  Modelled from the spec: the aggregated customer record (\<open>backend/app.py\<close>): identity,
  order count, total spent, earliest and latest order timestamp (null without orders),
  the ascending sequence of order timestamps and the gift-card flag.
\<close>

record customer_record =
  ident :: customer_identity
  order_count :: nat
  total_spent :: rat
  customer_since :: "int option"
  last_order_date :: "int option"
  order_timestamps :: "int list"
  has_gift_card_purchase :: bool

text \<open>
  Modelled from the spec: the record of a customer with zero orders (\<open>backend/app.py\<close>):
  order count 0, total spent 0, last order date null.
\<close>

definition no_orders :: "customer_identity \<Rightarrow> customer_record" where
  "no_orders c =
     \<lparr> ident = c, order_count = 0, total_spent = 0, customer_since = None,
       last_order_date = None, order_timestamps = [], has_gift_card_purchase = False \<rparr>"

text \<open>
  Modelled from the spec: one step of the aggregator's single pass (\<open>backend/app.py\<close>):
  an order adds one to the count and its total to the sum, moves the earliest and latest
  timestamps, extends the timestamp sequence and raises the gift-card flag when one of
  its line items has the gift-card category.
\<close>

definition add_order :: "customer_record \<Rightarrow> raw_order \<Rightarrow> customer_record" where
  "add_order r ord =
     r\<lparr> order_count := order_count r + 1,
        total_spent := total_spent r + order_total ord,
        customer_since :=
          (case customer_since r of
             None \<Rightarrow> Some (order_timestamp ord)
           | Some t \<Rightarrow> Some (min t (order_timestamp ord))),
        last_order_date :=
          (case last_order_date r of
             None \<Rightarrow> Some (order_timestamp ord)
           | Some t \<Rightarrow> Some (max t (order_timestamp ord))),
        order_timestamps := order_timestamps r @ [order_timestamp ord],
        has_gift_card_purchase := (has_gift_card_purchase r \<or> GiftCard \<in> set (line_items ord)) \<rparr>"

text \<open>
  Modelled from the spec: the aggregator for one customer (\<open>backend/app.py\<close>): sort
  the orders by timestamp ascending with a stable sort, ties broken by order identifier,
  then fold them into the record in a single pass.
\<close>

definition aggregate_customer :: "customer_identity \<Rightarrow> raw_order list \<Rightarrow> customer_record" where
  "aggregate_customer c orders =
     foldl add_order (no_orders c)
       (sort_key (\<lambda>ord. (order_timestamp ord, order_id ord)) orders)"

text \<open>
  Modelled from the spec: the errors of the engine (\<open>backend/app.py\<close>); a malformed
  criterion is never an error.
\<close>

datatype engine_error = FetchError | AggregationError

text \<open>
  Modelled from the spec: \<open>aggregate\<close> (\<open>backend/app.py\<close>): from each customer identity
  with its list of raw orders to the customer records; it fails with
  \<open>AggregationError\<close> when a raw order references a customer identity that is not among
  the input's customers.
\<close>

definition aggregate ::
  "(customer_identity \<times> raw_order list) list \<Rightarrow> engine_error + customer_record list" where
  "aggregate input =
     (if \<exists>ord \<in> set (concat (map snd input)). order_customer ord \<notin> set (map (cid \<circ> fst) input)
      then Inl AggregationError
      else Inr (map (\<lambda>(c, orders). aggregate_customer c orders) input))"

text \<open>
  Modelled from the spec: the numeric and winback filter criteria (\<open>backend/app.py\<close>):
  the numeric bounds arrive as optional strings, the winback criterion as a flag and a
  threshold in days.
\<close>

record filter_criteria =
  min_orders :: "string option"
  max_orders :: "string option"
  min_spent :: "string option"
  max_spent :: "string option"
  winback_enabled :: bool
  winback_gap_days :: int

text \<open>
  Modelled from the spec: a bound of a numeric range (\<open>backend/app.py\<close>): ignored if
  not supplied or not parseable as a non-negative number. \<open>parse\<close> reads a number from
  a string; the spec leaves its grammar open, so it is a parameter.
\<close>

definition bound :: "(string \<Rightarrow> rat option) \<Rightarrow> string option \<Rightarrow> rat option" where
  "bound parse input =
     (case input of
        None \<Rightarrow> None
      | Some s \<Rightarrow> (case parse s of
                    None \<Rightarrow> None
                  | Some v \<Rightarrow> if v < 0 then None else Some v))"

text \<open>
  Modelled from the spec: the numeric range predicate (\<open>backend/app.py\<close>): inclusive
  bounds, an ignored bound constrains nothing.
\<close>

definition in_range :: "(string \<Rightarrow> rat option) \<Rightarrow> string option \<Rightarrow> string option \<Rightarrow> rat \<Rightarrow> bool" where
  "in_range parse lo hi x =
     ((case bound parse lo of None \<Rightarrow> True | Some l \<Rightarrow> l \<le> x)
      \<and> (case bound parse hi of None \<Rightarrow> True | Some h \<Rightarrow> x \<le> h))"

text \<open>Modelled from the spec: one day, in the seconds of the order timestamps.\<close>

definition day_seconds :: int where
  "day_seconds = 24 * 60 * 60"

text \<open>
  Modelled from the spec: the scan of the winback-gap predicate (\<open>backend/app.py\<close>): one
  pass over the timestamps that compares each with its successor, without early exit
  beyond the disjunction.
\<close>

fun has_gap :: "int \<Rightarrow> int list \<Rightarrow> bool" where
  "has_gap g (a # b # ts) = (g \<le> b - a \<or> has_gap g (b # ts))"
| "has_gap g ts = False"

text \<open>
  Modelled from the spec: the winback-gap predicate (\<open>backend/app.py\<close>): enabled by the
  flag; a customer matches if two adjacent timestamps of the sorted order timestamps are
  at least the threshold of days apart.
\<close>

definition winback_pass :: "filter_criteria \<Rightarrow> customer_record \<Rightarrow> bool" where
  "winback_pass crit r =
     (if winback_enabled crit
      then has_gap (winback_gap_days crit * day_seconds) (sort (order_timestamps r))
      else True)"

text \<open>
  Modelled from the spec: the filter engine (\<open>backend/app.py\<close>): a record passes only
  if all criteria pass. \<open>others\<close> stands for the criteria that are not modelled here
  (search text, inactivity, gift-card flag).
\<close>

definition passes ::
  "(string \<Rightarrow> rat option) \<Rightarrow> (customer_record \<Rightarrow> bool) \<Rightarrow> filter_criteria \<Rightarrow> customer_record \<Rightarrow> bool" where
  "passes parse others crit r =
     (in_range parse (min_orders crit) (max_orders crit) (of_nat (order_count r))
      \<and> in_range parse (min_spent crit) (max_spent crit) (total_spent r)
      \<and> winback_pass crit r
      \<and> others r)"

text \<open>Modelled from the spec: \<open>filter(records, criteria)\<close> of the filter engine.\<close>

definition filter_records ::
  "(string \<Rightarrow> rat option) \<Rightarrow> (customer_record \<Rightarrow> bool) \<Rightarrow> filter_criteria
     \<Rightarrow> customer_record list \<Rightarrow> customer_record list" where
  "filter_records parse others crit rs = filter (passes parse others crit) rs"

text \<open>
  Example data: the customer of the spec's winback example, with one order at day 0 and
  one at day 65, criteria that constrain nothing, and a reader of the two numerals the
  spec's range example uses.
\<close>

definition example_customer :: customer_identity where
  "example_customer =
     \<lparr>cid = 7, first_name = ''Ann'', last_name = ''Lee'', email = ''ann@example.com''\<rparr>"

definition order_day0 :: raw_order where
  "order_day0 = \<lparr>order_id = 1, order_customer = 7, order_timestamp = 0, order_total = 60,
                  line_items = [OtherCategory ''food'']\<rparr>"

definition order_day65 :: raw_order where
  "order_day65 = \<lparr>order_id = 2, order_customer = 7, order_timestamp = 65 * 86400,
                   order_total = 15, line_items = [GiftCard]\<rparr>"

definition example_criteria :: filter_criteria where
  "example_criteria =
     \<lparr>min_orders = None, max_orders = None, min_spent = None, max_spent = None,
      winback_enabled = False, winback_gap_days = 60\<rparr>"

definition example_parse :: "string \<Rightarrow> rat option" where
  "example_parse s = (if s = ''100'' then Some 100 else if s = ''50'' then Some 50 else None)"

section \<open>The client never transmits the winback criterion\<close>

lemma append_if_notin:
  "k \<noteq> name \<Longrightarrow> k \<notin> fst ` set ps \<Longrightarrow> k \<notin> fst ` set (append_if fs name ps)"
  by (simp add: append_if_def)

lemma getCustomers_params_no_winback:
  "''winback'' \<notin> fst ` set (getCustomers_params fs)"
  unfolding getCustomers_params_def Let_def
  by (intro append_if_notin) simp_all

lemma getCustomers_params_no_winback_days:
  "''winback_days'' \<notin> fst ` set (getCustomers_params fs)"
  unfolding getCustomers_params_def Let_def
  by (intro append_if_notin) simp_all

lemma append_if_cong:
  "get_prop fs name = get_prop gs name \<Longrightarrow> ps = qs \<Longrightarrow> append_if fs name ps = append_if gs name qs"
  by (simp add: append_if_def)

lemma getCustomers_params_cong:
  assumes "get_prop fs ''search'' = get_prop gs ''search''"
    and "get_prop fs ''min_orders'' = get_prop gs ''min_orders''"
    and "get_prop fs ''max_orders'' = get_prop gs ''max_orders''"
    and "get_prop fs ''min_spent'' = get_prop gs ''min_spent''"
    and "get_prop fs ''max_spent'' = get_prop gs ''max_spent''"
    and "get_prop fs ''days_since_order'' = get_prop gs ''days_since_order''"
    and "get_prop fs ''purchased_gift_card'' = get_prop gs ''purchased_gift_card''"
    and "get_prop fs ''sort_by'' = get_prop gs ''sort_by''"
    and "get_prop fs ''sort_order'' = get_prop gs ''sort_order''"
    and "get_prop fs ''refresh'' = get_prop gs ''refresh''"
  shows "getCustomers_params fs = getCustomers_params gs"
  unfolding getCustomers_params_def Let_def
  by (intro append_if_cong assms refl)

lemma get_prop_append:
  "k \<in> fst ` set obj \<Longrightarrow> get_prop (obj @ extra) k = get_prop obj k"
  by (auto simp: get_prop_def map_add_def map_of_eq_None_iff split: option.splits)

lemma loadData_apiFilters_props:
  assumes "k \<in> fst ` set (loadData_literal s forceRefresh)"
  shows "get_prop (loadData_apiFilters s forceRefresh) k = get_prop (loadData_literal s forceRefresh) k"
  unfolding loadData_apiFilters_def Let_def
  using assms by (simp add: get_prop_append)

text \<open>
  C5. Whatever filter object \<open>getCustomers\<close> is given, no parameter it appends is named
  \<open>winback\<close> or \<open>winback_days\<close>; and the parameters it builds from the object that
  \<open>App.loadData\<close> hands over are those it builds from the object literal alone, before
  the winback flag and threshold were added: the two never reach the server.
\<close>

theorem getCustomers_never_sends_winback:
  "''winback'' \<notin> fst ` set (getCustomers_params fs)
   \<and> ''winback_days'' \<notin> fst ` set (getCustomers_params fs)
   \<and> getCustomers_params (loadData_apiFilters s forceRefresh)
       = getCustomers_params (loadData_literal s forceRefresh)"
proof -
  have same: "getCustomers_params (loadData_apiFilters s forceRefresh)
       = getCustomers_params (loadData_literal s forceRefresh)"
    by (rule getCustomers_params_cong; rule loadData_apiFilters_props; simp add: loadData_literal_def)
  from getCustomers_params_no_winback getCustomers_params_no_winback_days same
  show ?thesis by simp
qed

section \<open>What a refresh sends\<close>

lemma append_if_truthy:
  "truthy (get_prop fs name) \<Longrightarrow> (name, get_prop fs name) \<in> set (append_if fs name ps)"
  by (simp add: append_if_def)

text \<open>
  \<open>handleRefresh\<close> calls \<open>loadData(true)\<close>, and the parameters then carry
  \<open>refresh=true\<close>; every other call of \<open>loadData\<close> carries \<open>refresh=false\<close>, the
  string \<open>'false'\<close> being truthy. What the server makes of the parameter is its own code.
\<close>

lemma loadData_refresh_param:
  "(''refresh'', JStr (if forceRefresh then ''true'' else ''false''))
     \<in> set (getCustomers_params (loadData_apiFilters s forceRefresh))"
proof -
  have m: "''refresh'' \<in> fst ` set (loadData_literal s forceRefresh)"
    by (simp add: loadData_literal_def)
  have "get_prop (loadData_apiFilters s forceRefresh) ''refresh''
          = get_prop (loadData_literal s forceRefresh) ''refresh''"
    by (rule loadData_apiFilters_props [OF m])
  also have "\<dots> = JStr (if forceRefresh then ''true'' else ''false'')"
    by (simp add: loadData_literal_def get_prop_def)
  finally have p: "get_prop (loadData_apiFilters s forceRefresh) ''refresh''
             = JStr (if forceRefresh then ''true'' else ''false'')" .
  then have "truthy (get_prop (loadData_apiFilters s forceRefresh) ''refresh'')"
    by simp
  then have "(''refresh'', get_prop (loadData_apiFilters s forceRefresh) ''refresh'')
               \<in> set (getCustomers_params (loadData_apiFilters s forceRefresh))"
    unfolding getCustomers_params_def Let_def by (rule append_if_truthy)
  with p show ?thesis by simp
qed

section \<open>What getCustomers returns\<close>

lemma getCustomers_result_success:
  assumes "own_props body = Some data" and "truthy (get_prop data ''success'')"
  shows "getCustomers_result to_string body = Inr
           [(''customers'', get_prop data ''customers''),
            (''cache_info'', JObj
               [(''from_cache'', get_prop data ''from_cache''),
                (''cache_age'', get_prop data ''cache_age''),
                (''cache_ttl'', get_prop data ''cache_ttl''),
                (''total_customers'', get_prop data ''total_customers'')])]"
  using assms by (simp add: getCustomers_result_def)

text \<open>
  C2 (as amended). For every successful call (the body is an object whose \<open>success\<close> is
  truthy) whose response carries the customers as a sequence, \<open>from_cache\<close> as a
  boolean and \<open>cache_age\<close>, \<open>cache_ttl\<close> and \<open>total_customers\<close> as integers,
  \<open>getCustomers\<close> returns, alongside that customer sequence in its order, a
  \<open>cache_info\<close> object with the fields \<open>from_cache\<close> (bool), \<open>cache_age\<close> (int),
  \<open>cache_ttl\<close> (int) and \<open>total_customers\<close> (int).
\<close>

theorem getCustomers_cache_info:
  assumes "own_props body = Some data"
    and "truthy (get_prop data ''success'')"
    and "get_prop data ''customers'' = JArr cs"
    and "get_prop data ''from_cache'' = JBool from_cache"
    and "get_prop data ''cache_age'' = JNum (of_int cache_age)"
    and "get_prop data ''cache_ttl'' = JNum (of_int cache_ttl)"
    and "get_prop data ''total_customers'' = JNum (of_int total_customers)"
  shows "getCustomers_result to_string body = Inr
           [(''customers'', JArr cs),
            (''cache_info'', JObj
               [(''from_cache'', JBool from_cache),
                (''cache_age'', JNum (of_int cache_age)),
                (''cache_ttl'', JNum (of_int cache_ttl)),
                (''total_customers'', JNum (of_int total_customers))])]"
  using getCustomers_result_success [OF assms(1,2), of to_string] assms(3-7) by simp

theorem getCustomers_cache_info_witness:
  "getCustomers_result (\<lambda>v. ''[object Object]'')
     (JObj [(''success'', JBool True),
            (''customers'', JArr [JObj [(''id'', JNum 1)], JObj [(''id'', JNum 2)]]),
            (''from_cache'', JBool True), (''cache_age'', JNum 5), (''cache_ttl'', JNum 300),
            (''total_customers'', JNum 2)])
   = Inr [(''customers'', JArr [JObj [(''id'', JNum 1)], JObj [(''id'', JNum 2)]]),
          (''cache_info'', JObj
             [(''from_cache'', JBool True), (''cache_age'', JNum 5),
              (''cache_ttl'', JNum 300), (''total_customers'', JNum 2)])]"
  using getCustomers_cache_info
    [of "JObj [(''success'', JBool True),
            (''customers'', JArr [JObj [(''id'', JNum 1)], JObj [(''id'', JNum 2)]]),
            (''from_cache'', JBool True), (''cache_age'', JNum 5), (''cache_ttl'', JNum 300),
            (''total_customers'', JNum 2)]"
        "[(''success'', JBool True),
            (''customers'', JArr [JObj [(''id'', JNum 1)], JObj [(''id'', JNum 2)]]),
            (''from_cache'', JBool True), (''cache_age'', JNum 5), (''cache_ttl'', JNum 300),
            (''total_customers'', JNum 2)]"
        "[JObj [(''id'', JNum 1)], JObj [(''id'', JNum 2)]]" True 5 300 2
        "\<lambda>v. ''[object Object]''"]
  by (simp add: get_prop_def)

text \<open>
  With the field names of the spec the statement fails: on a successful response the
  returned \<open>cache_info\<close> has no field \<open>cache_age_seconds\<close> or \<open>cache_ttl_seconds\<close>;
  its field names are not the four the spec lists. And the fields have the types the
  spec gives only when the response has them: on a successful response without them
  every field of \<open>cache_info\<close>, and the customers, are \<open>undefined\<close>.
\<close>

theorem getCustomers_cache_info_counterexample:
  "getCustomers_result (\<lambda>v. ''[object Object]'')
     (JObj [(''success'', JBool True), (''customers'', JArr []), (''from_cache'', JBool True),
            (''cache_age'', JNum 5), (''cache_ttl'', JNum 300), (''total_customers'', JNum 0)])
   = Inr [(''customers'', JArr []),
          (''cache_info'', JObj
             [(''from_cache'', JBool True), (''cache_age'', JNum 5),
              (''cache_ttl'', JNum 300), (''total_customers'', JNum 0)])]
   \<and> keys_of (JObj
             [(''from_cache'', JBool True), (''cache_age'', JNum 5),
              (''cache_ttl'', JNum 300), (''total_customers'', JNum 0)])
       \<noteq> [''from_cache'', ''cache_age_seconds'', ''cache_ttl_seconds'', ''total_customers'']
   \<and> get_prop [(''from_cache'', JBool True), (''cache_age'', JNum 5),
              (''cache_ttl'', JNum 300), (''total_customers'', JNum 0)] ''cache_age_seconds''
       = JUndefined
   \<and> get_prop [(''from_cache'', JBool True), (''cache_age'', JNum 5),
              (''cache_ttl'', JNum 300), (''total_customers'', JNum 0)] ''cache_ttl_seconds''
       = JUndefined
   \<and> getCustomers_result (\<lambda>v. ''[object Object]'') (JObj [(''success'', JBool True)])
       = Inr [(''customers'', JUndefined),
              (''cache_info'', JObj
                 [(''from_cache'', JUndefined), (''cache_age'', JUndefined),
                  (''cache_ttl'', JUndefined), (''total_customers'', JUndefined)])]"
  by (simp add: getCustomers_result_def get_prop_def)

section \<open>Days since the last order\<close>









section \<open>filteredCustomers stays empty\<close>

lemma handle_filteredCustomers: "filteredCustomers (handle e s) = filteredCustomers s"
  by (cases e) (simp_all add: handleCustomerSelect_def handleSelectAll_def handleNextStep_def
        handleBackStep_def Let_def split: option.splits)

lemma foldl_handle_filteredCustomers:
  "filteredCustomers (foldl (\<lambda>s e. handle e s) s es) = filteredCustomers s"
  by (induction es arbitrary: s) (simp_all add: handle_filteredCustomers)

lemma run_filteredCustomers: "filteredCustomers (run es) = []"
  by (simp add: run_def foldl_handle_filteredCustomers initial_state_def)

lemma handleSelectAll_empty:
  "filteredCustomers s = [] \<Longrightarrow> selectedCustomers (handleSelectAll s) = []"
  by (simp add: handleSelectAll_def)

lemma App_view_empty:
  "filteredCustomers s = [] \<Longrightarrow> App_view s = SelectScreen v \<Longrightarrow> v = NoResults"
  by (auto simp: App_view_def CustomerList_view_def split: if_splits wizard_step.splits)

text \<open>
  C10. After every sequence of events \<open>filteredCustomers\<close> is the empty list: no event
  sets it. So Select All leaves no customer selected, and whenever the select screen is
  shown its customer list is the no-results notice, with no table row.
\<close>

theorem filteredCustomers_always_empty:
  "filteredCustomers (run es) = []
   \<and> selectedCustomers (handle SelectAll (run es)) = []
   \<and> (App_view (run es) = SelectScreen v \<longrightarrow> v = NoResults)"
  using run_filteredCustomers [of es] handleSelectAll_empty [of "run es"]
    App_view_empty [of "run es" v]
  by simp

theorem filteredCustomers_always_empty_witness:
  "App_view (run [LoadData_begin,
                  LoadData_customers [(''customers'', JArr [JObj [(''id'', JNum 1)]])],
                  LoadData_ok, LoadData_finally]) = SelectScreen NoResults
   \<and> customers (run [LoadData_begin,
                  LoadData_customers [(''customers'', JArr [JObj [(''id'', JNum 1)]])],
                  LoadData_ok, LoadData_finally]) = JArr [JObj [(''id'', JNum 1)]]
   \<and> filteredCustomers (run [LoadData_begin,
                  LoadData_customers [(''customers'', JArr [JObj [(''id'', JNum 1)]])],
                  LoadData_ok, LoadData_finally]) = []
   \<and> selectedCustomers (handle SelectAll (run [LoadData_begin,
                  LoadData_customers [(''customers'', JArr [JObj [(''id'', JNum 1)]])],
                  LoadData_ok, LoadData_finally])) = []"
  using filteredCustomers_always_empty
    [of "[LoadData_begin,
                  LoadData_customers [(''customers'', JArr [JObj [(''id'', JNum 1)]])],
                  LoadData_ok, LoadData_finally]" NoResults]
  by (simp add: run_def initial_state_def App_view_def CustomerList_view_def get_prop_def
        js_or_def)

section \<open>Aggregation does not depend on the order of the orders\<close>

lemma add_order_fields:
  "ident (add_order r a) = ident r"
  "order_count (add_order r a) = order_count r + 1"
  "total_spent (add_order r a) = total_spent r + order_total a"
  "order_timestamps (add_order r a) = order_timestamps r @ [order_timestamp a]"
  "has_gift_card_purchase (add_order r a)
     \<longleftrightarrow> has_gift_card_purchase r \<or> GiftCard \<in> set (line_items a)"
  by (simp_all add: add_order_def)

lemma add_order_since:
  "customer_since (add_order r a)
     = Some (Min (insert (order_timestamp a) (set_option (customer_since r))))"
  by (cases "customer_since r") (simp_all add: add_order_def min.commute)

lemma add_order_last:
  "last_order_date (add_order r a)
     = Some (Max (insert (order_timestamp a) (set_option (last_order_date r))))"
  by (cases "last_order_date r") (simp_all add: add_order_def max.commute)

lemma foldl_add_order_ident: "ident (foldl add_order r os) = ident r"
  by (induction os arbitrary: r) (simp_all add: add_order_fields)

lemma foldl_add_order_count: "order_count (foldl add_order r os) = order_count r + length os"
  by (induction os arbitrary: r) (simp_all add: add_order_fields)

lemma foldl_add_order_total:
  "total_spent (foldl add_order r os) = total_spent r + sum_list (map order_total os)"
  by (induction os arbitrary: r) (simp_all add: add_order_fields)

lemma foldl_add_order_timestamps:
  "order_timestamps (foldl add_order r os) = order_timestamps r @ map order_timestamp os"
  by (induction os arbitrary: r) (simp_all add: add_order_fields)

lemma foldl_add_order_gift:
  "has_gift_card_purchase (foldl add_order r os)
     \<longleftrightarrow> has_gift_card_purchase r \<or> (\<exists>ord \<in> set os. GiftCard \<in> set (line_items ord))"
  by (induction os arbitrary: r) (auto simp: add_order_fields)

lemma foldl_add_order_since:
  "customer_since (foldl add_order r os)
     = (if os = [] then customer_since r
        else Some (Min (set (map order_timestamp os) \<union> set_option (customer_since r))))"
proof (induction os arbitrary: r)
  case Nil
  then show ?case by simp
next
  case (Cons a os)
  have fin: "finite (set_option (customer_since r))"
    by (cases "customer_since r") simp_all
  show ?case
  proof (cases "os = []")
    case True
    then show ?thesis by (simp add: add_order_since)
  next
    case False
    let ?A = "set (map order_timestamp os)"
    let ?B = "insert (order_timestamp a) (set_option (customer_since r))"
    have A: "finite ?A" "?A \<noteq> {}" using False by simp_all
    have B: "finite ?B" "?B \<noteq> {}" using fin by simp_all
    have step: "customer_since (foldl add_order r (a # os)) = Some (Min (?A \<union> {Min ?B}))"
      using False by (simp add: Cons.IH add_order_since)
    have "Min (?A \<union> {Min ?B}) = min (Min ?A) (Min ?B)"
      using A by (simp add: min.commute)
    also have "\<dots> = Min (?A \<union> ?B)"
      by (rule Min_Un [OF A B, symmetric])
    finally have eq: "Min (?A \<union> {Min ?B}) = Min (?A \<union> ?B)" .
    have U: "?A \<union> ?B = set (map order_timestamp (a # os)) \<union> set_option (customer_since r)"
      by auto
    have "customer_since (foldl add_order r (a # os))
            = Some (Min (set (map order_timestamp (a # os)) \<union> set_option (customer_since r)))"
      by (simp only: step eq U)
    then show ?thesis by (simp only: list.distinct if_False)
  qed
qed

lemma foldl_add_order_last:
  "last_order_date (foldl add_order r os)
     = (if os = [] then last_order_date r
        else Some (Max (set (map order_timestamp os) \<union> set_option (last_order_date r))))"
proof (induction os arbitrary: r)
  case Nil
  then show ?case by simp
next
  case (Cons a os)
  have fin: "finite (set_option (last_order_date r))"
    by (cases "last_order_date r") simp_all
  show ?case
  proof (cases "os = []")
    case True
    then show ?thesis by (simp add: add_order_last)
  next
    case False
    let ?A = "set (map order_timestamp os)"
    let ?B = "insert (order_timestamp a) (set_option (last_order_date r))"
    have A: "finite ?A" "?A \<noteq> {}" using False by simp_all
    have B: "finite ?B" "?B \<noteq> {}" using fin by simp_all
    have step: "last_order_date (foldl add_order r (a # os)) = Some (Max (?A \<union> {Max ?B}))"
      using False by (simp add: Cons.IH add_order_last)
    have "Max (?A \<union> {Max ?B}) = max (Max ?A) (Max ?B)"
      using A by (simp add: max.commute)
    also have "\<dots> = Max (?A \<union> ?B)"
      by (rule Max_Un [OF A B, symmetric])
    finally have eq: "Max (?A \<union> {Max ?B}) = Max (?A \<union> ?B)" .
    have U: "?A \<union> ?B = set (map order_timestamp (a # os)) \<union> set_option (last_order_date r)"
      by auto
    have "last_order_date (foldl add_order r (a # os))
            = Some (Max (set (map order_timestamp (a # os)) \<union> set_option (last_order_date r)))"
      by (simp only: step eq U)
    then show ?thesis by (simp only: list.distinct if_False)
  qed
qed

lemma sorted_fst_of_sorted_pairs:
  "sorted (map (\<lambda>x. (f x, g x)) xs) \<Longrightarrow> sorted (map f xs)"
  by (induction xs) (auto simp: less_eq_prod_def)

lemma timestamps_of_sorted_orders:
  "map order_timestamp (sort_key (\<lambda>ord. (order_timestamp ord, order_id ord)) os)
     = sort (map order_timestamp os)"
proof -
  let ?sl = "sort_key (\<lambda>ord. (order_timestamp ord, order_id ord)) os"
  have "sorted (map (\<lambda>ord. (order_timestamp ord, order_id ord)) ?sl)"
    by (rule sorted_sort_key)
  then have "sorted (map order_timestamp ?sl)"
    by (rule sorted_fst_of_sorted_pairs)
  moreover have "mset (map order_timestamp ?sl) = mset (map order_timestamp os)"
    by simp
  ultimately show ?thesis
    by (metis properties_for_sort)
qed

lemma sort_key_Nil_iff: "sort_key f xs = [] \<longleftrightarrow> xs = []"
  by (metis length_sort length_0_conv)

lemma aggregate_customer_fields:
  "ident (aggregate_customer c os) = c"
  "order_count (aggregate_customer c os) = size (mset os)"
  "total_spent (aggregate_customer c os) = sum_mset (image_mset order_total (mset os))"
  "customer_since (aggregate_customer c os)
     = (if mset os = {#} then None else Some (Min (order_timestamp ` set_mset (mset os))))"
  "last_order_date (aggregate_customer c os)
     = (if mset os = {#} then None else Some (Max (order_timestamp ` set_mset (mset os))))"
  "order_timestamps (aggregate_customer c os) = sort (map order_timestamp os)"
  "has_gift_card_purchase (aggregate_customer c os)
     \<longleftrightarrow> (\<exists>ord \<in> set_mset (mset os). GiftCard \<in> set (line_items ord))"
proof -
  let ?sl = "sort_key (\<lambda>ord. (order_timestamp ord, order_id ord)) os"
  show "ident (aggregate_customer c os) = c"
    by (simp add: aggregate_customer_def foldl_add_order_ident no_orders_def)
  show "order_count (aggregate_customer c os) = size (mset os)"
    by (simp add: aggregate_customer_def foldl_add_order_count no_orders_def)
  have "sum_list (map order_total ?sl) = sum_mset (mset (map order_total ?sl))"
    by (simp only: sum_mset_sum_list)
  then show "total_spent (aggregate_customer c os) = sum_mset (image_mset order_total (mset os))"
    by (simp add: aggregate_customer_def foldl_add_order_total no_orders_def)
  show "customer_since (aggregate_customer c os)
     = (if mset os = {#} then None else Some (Min (order_timestamp ` set_mset (mset os))))"
    by (simp add: aggregate_customer_def foldl_add_order_since no_orders_def sort_key_Nil_iff)
  show "last_order_date (aggregate_customer c os)
     = (if mset os = {#} then None else Some (Max (order_timestamp ` set_mset (mset os))))"
    by (simp add: aggregate_customer_def foldl_add_order_last no_orders_def sort_key_Nil_iff)
  show "order_timestamps (aggregate_customer c os) = sort (map order_timestamp os)"
    by (simp add: aggregate_customer_def foldl_add_order_timestamps no_orders_def
          timestamps_of_sorted_orders)
  show "has_gift_card_purchase (aggregate_customer c os)
     \<longleftrightarrow> (\<exists>ord \<in> set_mset (mset os). GiftCard \<in> set (line_items ord))"
    by (simp add: aggregate_customer_def foldl_add_order_gift no_orders_def)
qed

lemma sort_mset_cong:
  fixes xs ys :: "int list"
  assumes "mset xs = mset ys"
  shows "sort xs = sort ys"
  using assms by (metis properties_for_sort sorted_sort mset_sort)

lemma aggregate_customer_perm:
  assumes "mset os = mset os'"
  shows "aggregate_customer c os = aggregate_customer c os'"
proof (rule customer_record.equality)
  show "ident (aggregate_customer c os) = ident (aggregate_customer c os')"
    by (simp only: aggregate_customer_fields)
  show "order_count (aggregate_customer c os) = order_count (aggregate_customer c os')"
    by (simp only: aggregate_customer_fields assms)
  show "total_spent (aggregate_customer c os) = total_spent (aggregate_customer c os')"
    by (simp only: aggregate_customer_fields assms)
  show "customer_since (aggregate_customer c os) = customer_since (aggregate_customer c os')"
    by (simp only: aggregate_customer_fields assms)
  show "last_order_date (aggregate_customer c os) = last_order_date (aggregate_customer c os')"
    by (simp only: aggregate_customer_fields assms)
  have "mset (map order_timestamp os) = mset (map order_timestamp os')"
    using assms by (metis mset_map)
  then have "sort (map order_timestamp os) = sort (map order_timestamp os')"
    by (rule sort_mset_cong)
  then show "order_timestamps (aggregate_customer c os) = order_timestamps (aggregate_customer c os')"
    by (simp only: aggregate_customer_fields)
  show "has_gift_card_purchase (aggregate_customer c os)
          = has_gift_card_purchase (aggregate_customer c os')"
    by (simp only: aggregate_customer_fields assms)
  show "customer_record.more (aggregate_customer c os) = customer_record.more (aggregate_customer c os')"
    by simp
qed

lemma aggregate_perm:
  assumes "mset os = mset os'"
  shows "aggregate (before @ (c, os) # after) = aggregate (before @ (c, os') # after)"
proof -
  have "set os = set os'" using assms by (metis set_mset_mset)
  then show ?thesis
    by (simp add: aggregate_def aggregate_customer_perm [OF assms])
qed

text \<open>
  C8. Aggregation is order-independent: two lists of raw orders that are permutations of
  each other give the same customer record (count, sum, earliest and latest timestamp,
  timestamp sequence, gift-card flag), for one customer and inside \<open>aggregate\<close>.
\<close>

theorem aggregation_order_independent:
  assumes "mset orders = mset orders'"
  shows "aggregate_customer c orders = aggregate_customer c orders'
         \<and> aggregate (before @ (c, orders) # after) = aggregate (before @ (c, orders') # after)"
  using assms aggregate_customer_perm aggregate_perm by blast

theorem aggregation_order_independent_witness:
  "mset [order_day0, order_day65] = mset [order_day65, order_day0]
   \<and> aggregate_customer example_customer [order_day0, order_day65]
       = aggregate_customer example_customer [order_day65, order_day0]
   \<and> aggregate_customer example_customer [order_day65, order_day0]
       = \<lparr> ident = example_customer, order_count = 2, total_spent = 75,
           customer_since = Some 0, last_order_date = Some (65 * 86400),
           order_timestamps = [0, 65 * 86400], has_gift_card_purchase = True \<rparr>
   \<and> aggregate [(example_customer, [order_day0, order_day65])]
       = aggregate [(example_customer, [order_day65, order_day0])]"
proof -
  have m: "mset [order_day0, order_day65] = mset [order_day65, order_day0]"
    by simp
  have v: "aggregate_customer example_customer [order_day65, order_day0]
       = \<lparr> ident = example_customer, order_count = 2, total_spent = 75,
           customer_since = Some 0, last_order_date = Some (65 * 86400),
           order_timestamps = [0, 65 * 86400], has_gift_card_purchase = True \<rparr>"
    by (simp add: aggregate_customer_def order_day0_def order_day65_def add_order_def
          no_orders_def less_eq_prod_def)
  from m v aggregation_order_independent [OF m, of example_customer "[]" "[]"]
  show ?thesis by simp
qed

section \<open>The winback-gap predicate\<close>

lemma has_gap_iff:
  "has_gap g ts \<longleftrightarrow> (\<exists>i. Suc i < length ts \<and> g \<le> ts ! Suc i - ts ! i)"
proof (induction g ts rule: has_gap.induct)
  case (1 g a b ts)
  have "(\<exists>i. Suc i < length (a # b # ts) \<and> g \<le> (a # b # ts) ! Suc i - (a # b # ts) ! i)
        \<longleftrightarrow> (g \<le> b - a \<or> (\<exists>j. Suc j < length (b # ts) \<and> g \<le> (b # ts) ! Suc j - (b # ts) ! j))"
    (is "?L \<longleftrightarrow> ?R")
  proof
    assume ?L
    then obtain i where i: "Suc i < length (a # b # ts)" "g \<le> (a # b # ts) ! Suc i - (a # b # ts) ! i"
      by blast
    show ?R
    proof (cases i)
      case 0
      with i show ?thesis by simp
    next
      case (Suc j)
      with i have "Suc j < length (b # ts) \<and> g \<le> (b # ts) ! Suc j - (b # ts) ! j" by simp
      then show ?thesis by blast
    qed
  next
    assume ?R
    then show ?L
    proof
      assume "g \<le> b - a"
      then have "Suc 0 < length (a # b # ts) \<and> g \<le> (a # b # ts) ! Suc 0 - (a # b # ts) ! 0" by simp
      then show ?L by blast
    next
      assume "\<exists>j. Suc j < length (b # ts) \<and> g \<le> (b # ts) ! Suc j - (b # ts) ! j"
      then obtain j where "Suc j < length (b # ts)" "g \<le> (b # ts) ! Suc j - (b # ts) ! j" by blast
      then have "Suc (Suc j) < length (a # b # ts)
                 \<and> g \<le> (a # b # ts) ! Suc (Suc j) - (a # b # ts) ! Suc j" by simp
      then show ?L by blast
    qed
  qed
  with "1.IH" show ?case by simp
qed simp_all

lemma has_gap_short: "length ts < 2 \<Longrightarrow> \<not> has_gap g ts"
  by (simp add: has_gap_iff)

text \<open>
  C1. With the winback criterion enabled and a threshold of N days, a record passes if
  and only if two adjacent timestamps of its sorted order timestamps are at least N days
  apart; a record with fewer than two orders never passes.
\<close>

theorem winback_adjacent_gap:
  assumes "winback_enabled crit"
  shows "(winback_pass crit r \<longleftrightarrow>
            (\<exists>i. Suc i < length (sort (order_timestamps r))
                 \<and> winback_gap_days crit * day_seconds
                     \<le> sort (order_timestamps r) ! Suc i - sort (order_timestamps r) ! i))
         \<and> (length (order_timestamps r) < 2 \<longrightarrow> \<not> winback_pass crit r)"
  using assms by (simp add: winback_pass_def has_gap_iff)

theorem winback_adjacent_gap_witness:
  "winback_enabled (example_criteria\<lparr>winback_enabled := True, winback_gap_days := 60\<rparr>)
   \<and> winback_pass (example_criteria\<lparr>winback_enabled := True, winback_gap_days := 60\<rparr>)
        (aggregate_customer example_customer [order_day65, order_day0])
   \<and> \<not> winback_pass (example_criteria\<lparr>winback_enabled := True, winback_gap_days := 90\<rparr>)
        (aggregate_customer example_customer [order_day65, order_day0])
   \<and> \<not> winback_pass (example_criteria\<lparr>winback_enabled := True, winback_gap_days := 0\<rparr>)
        (aggregate_customer example_customer [order_day0])"
  using winback_adjacent_gap
    [of "example_criteria\<lparr>winback_enabled := True, winback_gap_days := 0\<rparr>"
        "aggregate_customer example_customer [order_day0]"]
  by (simp add: winback_pass_def aggregate_customer_fields example_criteria_def
        order_day0_def order_day65_def day_seconds_def)

section \<open>A contradictory numeric range\<close>

lemma in_range_contradictory:
  assumes "bound parse lo = Some l" and "bound parse hi = Some h" and "h < l"
  shows "\<not> in_range parse lo hi x"
  using assms by (auto simp: in_range_def)

text \<open>
  C9. When both bounds of a numeric range (order count or total spent) are supplied and
  the minimum exceeds the maximum, the filter returns the empty list: a value, the
  filter has no error to raise.
\<close>

theorem contradictory_range_matches_nothing:
  assumes "(bound parse (min_orders crit) = Some lo \<and> bound parse (max_orders crit) = Some hi)
           \<or> (bound parse (min_spent crit) = Some lo \<and> bound parse (max_spent crit) = Some hi)"
    and "hi < lo"
  shows "filter_records parse others crit rs = []"
proof -
  have "\<not> passes parse others crit r" for r
    using assms in_range_contradictory [of parse _ lo _ hi]
    by (auto simp: passes_def)
  then show ?thesis
    by (simp add: filter_records_def)
qed

theorem contradictory_range_matches_nothing_witness:
  "bound example_parse (min_spent (example_criteria\<lparr>min_spent := Some ''100'', max_spent := Some ''50''\<rparr>))
     = Some 100
   \<and> bound example_parse (max_spent (example_criteria\<lparr>min_spent := Some ''100'', max_spent := Some ''50''\<rparr>))
     = Some 50
   \<and> filter_records example_parse (\<lambda>r. True)
        (example_criteria\<lparr>min_spent := Some ''100'', max_spent := Some ''50''\<rparr>)
        [aggregate_customer example_customer [order_day65, order_day0]] = []
   \<and> filter_records example_parse (\<lambda>r. True)
        (example_criteria\<lparr>min_spent := Some ''50'', max_spent := Some ''100''\<rparr>)
        [aggregate_customer example_customer [order_day65, order_day0]]
      = [aggregate_customer example_customer [order_day65, order_day0]]"
  using contradictory_range_matches_nothing
    [of example_parse "example_criteria\<lparr>min_spent := Some ''100'', max_spent := Some ''50''\<rparr>"
        100 50 "\<lambda>r. True" "[aggregate_customer example_customer [order_day65, order_day0]]"]
  by (simp add: bound_def example_parse_def filter_records_def passes_def in_range_def
        winback_pass_def example_criteria_def aggregate_customer_fields
        order_day0_def order_day65_def)

end
